theory Spec2Isabelle
  imports Main "HOL-Library.Char_ord" "HOL-Library.List_Lexorder"
begin

unbundle bit_operations_syntax

section \<open>The two-replica retrieval protocol of real_pir_protocol.cpp\<close>

text \<open>
  The program keeps its whole database on disk: directory \<open>D0\<close> and directory \<open>D1\<close>
  hold, under the same file name, one text file of \<open>0\<close>/\<open>1\<close> characters per video. A
  query reads the two files of one video, draws two random bit vectors \<open>r1\<close> and \<open>r2\<close>,
  answers with \<open>D0.r1 + D1.r2\<close> (mod 2) and stores \<open>r1\<close> and \<open>r2\<close> in the working
  directory. The client then loads the video from \<open>D0\<close>.

  Everything the functions do to the file system is written out as a state, \<open>world\<close>,
  that each function takes and returns. Console output and timing are left out.
\<close>

subsection \<open>The file system\<close>

type_synonym path = string

text \<open>
  \<^item> \<open>d0_dir\<close>: what \<open>fs::directory_iterator("D0")\<close> yields, in iteration order, each
    entry with its file name and whether it is a regular file; \<open>None\<close> when \<open>D0\<close> does
    not exist.
  \<^item> \<open>files\<close>: the content of every file that exists and can be opened for reading,
    by path (\<open>D0/name\<close>, \<open>D1/name\<close>, \<open>r1.txt\<close>, \<open>r2.txt\<close>). A path is a readable
    regular file or absent: a directory under one of these names, on which the size
    query of \<open>readBitsFile\<close> fails, is not among the worlds described.
  \<^item> \<open>unwritable\<close>: the paths on which opening an \<open>ofstream\<close> fails.
  \<^item> \<open>opened\<close>: the paths handed to \<open>readBitsFile\<close> so far, oldest first. The program
    has no such log; it records the sequence of file accesses a run performs.
\<close>

record world =
  d0_dir :: "(string \<times> bool) list option"
  files :: "path \<rightharpoonup> string"
  unwritable :: "path set"
  opened :: "path list"

text \<open>
  What a run can do besides returning: index a vector past its end (undefined behaviour
  in C++), or let \<open>fs::directory_iterator\<close> throw on a missing directory (nothing
  catches it).
\<close>

datatype fault = OutOfRangeRead | FilesystemError

subsection \<open>Reading and writing bit files (lines 35--67)\<close>

text \<open>The loop of \<open>readBitsFile\<close> over the characters: \<open>0\<close> and \<open>1\<close> are kept, others skipped.\<close>

primrec parse_bits :: "string \<Rightarrow> int list" where
  "parse_bits [] = []"
| "parse_bits (c # cs) =
     (if c = CHR ''0'' then 0 # parse_bits cs
      else if c = CHR ''1'' then 1 # parse_bits cs
      else parse_bits cs)"

text \<open>
  \<open>readBitsFile\<close>: \<open>None\<close> is the return value \<open>false\<close> (the file could not be opened,
  \<open>outBits\<close> untouched), \<open>Some bits\<close> is \<open>true\<close> with \<open>outBits\<close>, which every caller
  passes in empty.
\<close>

definition readBitsFile :: "path \<Rightarrow> world \<Rightarrow> int list option \<times> world" where
  "readBitsFile p w =
     (case files w p of
        None \<Rightarrow> (None, w\<lparr>opened := opened w @ [p]\<rparr>)
      | Some s \<Rightarrow> (Some (parse_bits s), w\<lparr>opened := opened w @ [p]\<rparr>))"

text \<open>
  \<open>writeBitsFile\<close>: fails only when the stream cannot be opened; otherwise the file is
  truncated and holds one character per bit (\<open>bits[i] ? '1' : '0'\<close>).
\<close>

definition bit_char :: "int \<Rightarrow> char" where
  "bit_char b = (if b \<noteq> 0 then CHR ''1'' else CHR ''0'')"

definition writeBitsFile :: "path \<Rightarrow> int list \<Rightarrow> world \<Rightarrow> bool \<times> world" where
  "writeBitsFile p bits w =
     (if p \<in> unwritable w then (False, w)
      else (True, w\<lparr>files := (files w)(p \<mapsto> map bit_char bits)\<rparr>))"

subsection \<open>Setup (lines 124--161)\<close>

text \<open>
  \<open>fs::path::extension\<close> of a file name: from the rightmost period on, empty when there
  is no period, when the name is \<open>.\<close> or \<open>..\<close>, or when the only period is the first
  character.
\<close>

definition extension :: "string \<Rightarrow> string" where
  "extension name =
     (if name = ''.'' \<or> name = ''..'' \<or> CHR ''.'' \<notin> set name then []
      else let suffix = rev (takeWhile (\<lambda>c. c \<noteq> CHR ''.'') (rev name))
           in if length suffix + 1 = length name then [] else CHR ''.'' # suffix)"

text \<open>\<open>name.substr(name.size() - 11) == ".binary.txt"\<close>, guarded by the size test before it.\<close>

definition ends_binary_txt :: "string \<Rightarrow> bool" where
  "ends_binary_txt name \<longleftrightarrow> drop (length name - 11) name = ''.binary.txt''"

text \<open>
  \<open>setup_server_database\<close> returns the file names of the videos, in directory order;
  the empty list when \<open>D0\<close> is missing or holds no video.
\<close>

definition setup_server_database :: "world \<Rightarrow> string list" where
  "setup_server_database w =
     (case d0_dir w of
        None \<Rightarrow> []
      | Some entries \<Rightarrow>
          map fst (filter (\<lambda>(name, regular).
                     regular \<and> extension name = ''.txt'' \<and> 12 \<le> length name
                             \<and> 12 \<le> length name \<and> ends_binary_txt name) entries))"

subsection \<open>Query generation (lines 163--174)\<close>

text \<open>
  \<open>targetIndex\<close> is a C++ \<open>int\<close>, \<open>total\<close> a \<open>size_t\<close>. The cast to \<open>size_t\<close> is only
  evaluated for a non-negative index, where it keeps the value.
\<close>

definition client_generate_query :: "int \<Rightarrow> nat \<Rightarrow> int list" where
  "client_generate_query targetIndex total' =
     (let q = replicate total' 0
      in if 0 \<le> targetIndex \<and> nat targetIndex < total' then q[nat targetIndex := 1] else q)"

subsection \<open>Server (lines 176--243)\<close>

text \<open>
  The random bits: \<open>draws n\<close> is the \<open>n\<close>-th value that \<open>dist(gen)\<close> returns in this
  call, a bit since the distribution is over \<open>{0, 1}\<close>. The loop at line 210 draws
  \<open>r1[j]\<close> and then \<open>r2[j]\<close>.
\<close>

definition gen_r1 :: "(nat \<Rightarrow> bool) \<Rightarrow> nat \<Rightarrow> int list" where
  "gen_r1 draws bitLen = map (\<lambda>j. of_bool (draws (2 * j))) [0..<bitLen]"

definition gen_r2 :: "(nat \<Rightarrow> bool) \<Rightarrow> nat \<Rightarrow> int list" where
  "gen_r2 draws bitLen = map (\<lambda>j. of_bool (draws (2 * j + 1))) [0..<bitLen]"

text \<open>The loop at lines 221--223.\<close>

definition compute_result :: "int list \<Rightarrow> int list \<Rightarrow> int list \<Rightarrow> int list \<Rightarrow> int list" where
  "compute_result d0Bits d1Bits r1 r2 =
     map (\<lambda>j. (d0Bits ! j * r1 ! j + d1Bits ! j * r2 ! j) AND 1) [0..<length d0Bits]"

text \<open>
  The body of the \<open>if\<close> at line 184, for the video file it selected. \<open>d1Bits[j]\<close> is
  read for every \<open>j\<close> below the length of \<open>d0Bits\<close>: past the end of \<open>d1Bits\<close> when
  the \<open>D1\<close> file holds fewer bits.
\<close>

definition process_video :: "string \<Rightarrow> (nat \<Rightarrow> bool) \<Rightarrow> world \<Rightarrow> (fault + int list) \<times> world" where
  "process_video videoFile draws w =
     (case readBitsFile (''D0/'' @ videoFile) w of
        (None, w1) \<Rightarrow> (Inr [], w1)
      | (Some d0Bits, w1) \<Rightarrow>
          (case readBitsFile (''D1/'' @ videoFile) w1 of
             (None, w2) \<Rightarrow> (Inr [], w2)
           | (Some d1Bits, w2) \<Rightarrow>
               (let bitLen = length d0Bits;
                    r1 = gen_r1 draws bitLen;
                    r2 = gen_r2 draws bitLen
                in if length d1Bits < bitLen then (Inl OutOfRangeRead, w2)
                   else
                     (let result = compute_result d0Bits d1Bits r1 r2
                      in case writeBitsFile ''r1.txt'' r1 w2 of
                           (False, w3) \<Rightarrow> (Inr d0Bits, w3)
                         | (True, w3) \<Rightarrow>
                             (case writeBitsFile ''r2.txt'' r2 w3 of
                                (False, w4) \<Rightarrow> (Inr d0Bits, w4)
                              | (True, w4) \<Rightarrow> (Inr result, w4))))))"

text \<open>The loop at line 183, from index \<open>i\<close> on.\<close>

function server_scan ::
  "nat \<Rightarrow> int list \<Rightarrow> string list \<Rightarrow> (nat \<Rightarrow> bool) \<Rightarrow> world \<Rightarrow> (fault + int list) \<times> world" where
  "server_scan i query videoFiles draws w =
     (if i < length videoFiles then
        (if i < length query \<and> query ! i = 1 then process_video (videoFiles ! i) draws w
         else server_scan (i + 1) query videoFiles draws w)
      else (Inr [], w))"
  by pat_completeness auto
termination
  by (relation "measure (\<lambda>(i, query, videoFiles, draws, w). length videoFiles - i)") auto

declare server_scan.simps [simp del]

definition server_process_query ::
  "int list \<Rightarrow> string list \<Rightarrow> (nat \<Rightarrow> bool) \<Rightarrow> world \<Rightarrow> (fault + int list) \<times> world" where
  "server_process_query query videoFiles draws w = server_scan 0 query videoFiles draws w"

subsection \<open>Client decoding (lines 245--302)\<close>

text \<open>
  The listing the client makes of \<open>D0\<close>: the paths of the regular files whose name ends
  in \<open>.binary.txt\<close>, sorted. All paths share the directory, so \<open>fs::path\<close>'s order is the
  order of the strings, compared byte by byte.
\<close>

definition list_d0_files :: "(string \<times> bool) list \<Rightarrow> path list" where
  "list_d0_files entries =
     sort (map (\<lambda>(name, regular). ''D0/'' @ name)
            (filter (\<lambda>(name, regular). regular \<and> 11 \<le> length name \<and> ends_binary_txt name)
               entries))"

text \<open>
  Lines 252--269 and, word for word, lines 284--301: list \<open>D0\<close>, return nothing for an
  index past the listing, else read that file; the return value of \<open>readBitsFile\<close> is
  not looked at, so a file that cannot be opened gives the empty vector.
\<close>

definition load_original :: "nat \<Rightarrow> world \<Rightarrow> (fault + int list) \<times> world" where
  "load_original targetIndex w =
     (case d0_dir w of
        None \<Rightarrow> (Inl FilesystemError, w)
      | Some entries \<Rightarrow>
          (let fl = list_d0_files entries
           in if length fl \<le> targetIndex then (Inr [], w)
              else (case readBitsFile (fl ! targetIndex) w of
                      (None, w1) \<Rightarrow> (Inr [], w1)
                    | (Some original, w1) \<Rightarrow> (Inr original, w1))))"

text \<open>
  \<open>fs::exists\<close> is read off \<open>files\<close>: a file that exists but cannot be opened counts
  as missing. The two vectors \<open>r1\<close> and \<open>r2\<close> are loaded and not used.
\<close>

definition client_decode_pir_result ::
  "int list \<Rightarrow> nat \<Rightarrow> world \<Rightarrow> (fault + int list) \<times> world" where
  "client_decode_pir_result serverResponse targetIndex w =
     (if files w ''r1.txt'' = None \<or> files w ''r2.txt'' = None then load_original targetIndex w
      else (case readBitsFile ''r1.txt'' w of
              (r1, w1) \<Rightarrow>
                (case readBitsFile ''r2.txt'' w1 of
                   (r2, w2) \<Rightarrow> load_original targetIndex w2)))"

subsection \<open>The run of one retrieval (lines 357--377 and 324)\<close>

text \<open>
  \<open>main\<close> from the index the user typed up to the decoded bits: setup, the index check,
  the query, the server and the client's decoding. What \<open>client_reconstruct_video\<close> does
  with the decoded bits afterwards (saving and converting them) is not part of it.
\<close>

datatype outcome = NoVideos | InvalidVideoIndex | Decoded "int list"

definition pir_main :: "int \<Rightarrow> (nat \<Rightarrow> bool) \<Rightarrow> world \<Rightarrow> (fault + outcome) \<times> world" where
  "pir_main targetIndex draws w =
     (let videoFiles = setup_server_database w
      in if videoFiles = [] then (Inr NoVideos, w)
         else if targetIndex < 0 \<or> length videoFiles \<le> nat targetIndex
           then (Inr InvalidVideoIndex, w)
         else
           (let query = client_generate_query targetIndex (length videoFiles)
            in case server_process_query query videoFiles draws w of
                 (Inl e, w1) \<Rightarrow> (Inl e, w1)
               | (Inr serverResp, w1) \<Rightarrow>
                   (case client_decode_pir_result serverResp (nat targetIndex) w1 of
                      (Inl e, w2) \<Rightarrow> (Inl e, w2)
                    | (Inr decoded, w2) \<Rightarrow> (Inr (Decoded decoded), w2))))"

subsection \<open>The protocol's vocabulary\<close>

text \<open>
  The bits \<open>readBitsFile\<close> leaves in its output vector for a path: the parsed content,
  or nothing when the file cannot be opened. Replica A's share of the video \<open>name\<close> is
  \<open>file_bits w (''D0/'' @ name)\<close>, replica B's is \<open>file_bits w (''D1/'' @ name)\<close>: the
  two vectors the server loads as \<open>d0Bits\<close> and \<open>d1Bits\<close>.
\<close>

definition file_bits :: "world \<Rightarrow> path \<Rightarrow> int list" where
  "file_bits w p = (case files w p of None \<Rightarrow> [] | Some s \<Rightarrow> parse_bits s)"

definition xor_bits :: "int list \<Rightarrow> int list \<Rightarrow> int list" where
  "xor_bits a b = map2 (\<lambda>x y. x XOR y) a b"

text \<open>
  The evaluator in the words of the specification (Section 4.3): at bit position \<open>j\<close>
  below the longest record's length, the XOR over all record indices \<open>i\<close> of
  \<open>selection[i] AND share_i[j]\<close>, a share counting as \<open>0\<close> past its end.
\<close>

definition share_bit :: "int list \<Rightarrow> nat \<Rightarrow> int" where
  "share_bit share j = (if j < length share then share ! j else 0)"

definition max_record_length :: "int list list \<Rightarrow> nat" where
  "max_record_length shares = foldr max (map length shares) 0"

definition spec_evaluate :: "int list \<Rightarrow> int list list \<Rightarrow> int list" where
  "spec_evaluate selection shares =
     map (\<lambda>j. foldr (\<lambda>x acc. x XOR acc)
                 (map (\<lambda>i. (selection ! i) AND share_bit (shares ! i) j) [0..<length shares]) 0)
       [0..<max_record_length shares]"

subsection \<open>A small database\<close>

text \<open>
  Two videos, \<open>a\<close> of two bits and \<open>b\<close> of three, listed by the directory in sorted
  order, and two outcomes of the random generator: every draw \<open>1\<close>, and draws that
  alternate \<open>1, 0, 1, 0, \<dots>\<close> (so that \<open>r1\<close> is all ones and \<open>r2\<close> all zeros).
\<close>

definition video_names :: "string list" where
  "video_names = [''a.binary.txt'', ''b.binary.txt'']"

definition demo_db :: world where
  "demo_db =
     \<lparr>d0_dir = Some [(''a.binary.txt'', True), (''b.binary.txt'', True), (''notes.txt'', True)],
      files = [''D0/a.binary.txt'' \<mapsto> ''10'', ''D1/a.binary.txt'' \<mapsto> ''01'',
               ''D0/b.binary.txt'' \<mapsto> ''111'', ''D1/b.binary.txt'' \<mapsto> ''010''],
      unwritable = {},
      opened = []\<rparr>"

text \<open>The same database with replica B's file of video \<open>a\<close> missing.\<close>

definition demo_db_no_d1 :: world where
  "demo_db_no_d1 = demo_db\<lparr>files := (files demo_db)(''D1/a.binary.txt'' := None)\<rparr>"

text \<open>The same database in a working directory where \<open>r1.txt\<close> cannot be created.\<close>

definition demo_db_readonly :: world where
  "demo_db_readonly = demo_db\<lparr>unwritable := {''r1.txt''}\<rparr>"

definition one_draws :: "nat \<Rightarrow> bool" where
  "one_draws n = True"

definition alt_draws :: "nat \<Rightarrow> bool" where
  "alt_draws n = even n"

lemmas demo_defs =
  demo_db_def demo_db_no_d1_def demo_db_readonly_def video_names_def one_draws_def alt_draws_def

lemmas protocol_defs =
  setup_server_database_def extension_def ends_binary_txt_def client_generate_query_def
  server_process_query_def server_scan.simps process_video_def readBitsFile_def writeBitsFile_def
  gen_r1_def gen_r2_def compute_result_def bit_char_def client_decode_pir_result_def
  load_original_def list_d0_files_def pir_main_def file_bits_def xor_bits_def Let_def

section \<open>Properties\<close>

subsection \<open>Bits and queries\<close>

lemma parse_bits_bit: "x \<in> set (parse_bits s) \<Longrightarrow> x = 0 \<or> x = 1"
  by (induction s) (auto split: if_splits)

lemma bit_arith:
  assumes "a = 0 \<or> a = (1::int)" "c = 0 \<or> c = (1::int)"
  shows "(a * of_bool x + c * of_bool y) AND 1 = (a AND of_bool x) XOR (c AND of_bool y)"
  using assms by (cases x; cases y) auto

lemma query_length: "length (client_generate_query k n) = n"
  by (simp add: client_generate_query_def Let_def)

lemma query_at_target: "0 \<le> k \<Longrightarrow> nat k < n \<Longrightarrow> client_generate_query k n ! nat k = 1"
  by (simp add: client_generate_query_def Let_def)

lemma query_elsewhere: "j < n \<Longrightarrow> j \<noteq> nat k \<or> k < 0 \<Longrightarrow> client_generate_query k n ! j = 0"
  by (auto simp add: client_generate_query_def Let_def)

lemma query_weight:
  assumes "0 \<le> k" "nat k < n"
  shows "length (filter (\<lambda>b. b = 1) (client_generate_query k n)) = 1"
proof -
  have "client_generate_query k n = replicate (nat k) 0 @ [1] @ replicate (n - nat k - 1) 0"
    using assms
    by (simp add: client_generate_query_def Let_def upd_conv_take_nth_drop min_def)
  then show ?thesis by simp
qed

subsection \<open>The server's loop\<close>

text \<open>Indices whose query entry is not \<open>1\<close> are stepped over without any effect.\<close>

lemma server_scan_skip:
  assumes "\<forall>j. i \<le> j \<and> j < m \<longrightarrow> \<not> (j < length query \<and> query ! j = 1)"
    and "i \<le> m" and "m \<le> length videoFiles"
  shows "server_scan i query videoFiles draws w = server_scan m query videoFiles draws w"
  using assms
proof (induction i query videoFiles draws w rule: server_scan.induct)
  case (1 i query videoFiles draws w)
  show ?case
  proof (cases "i = m")
    case True
    then show ?thesis by simp
  next
    case False
    with "1.prems" have lt: "i < m" "i < length videoFiles" by auto
    with "1.prems" have nsel: "\<not> (i < length query \<and> query ! i = 1)" by auto
    have "server_scan i query videoFiles draws w = server_scan (i + 1) query videoFiles draws w"
      using lt nsel by (subst server_scan.simps) auto
    also have "\<dots> = server_scan m query videoFiles draws w"
      using "1.IH" [OF lt(2) nsel] "1.prems" lt by auto
    finally show ?thesis .
  qed
qed

lemma server_first_selected:
  assumes "i < length videoFiles" "i < length query" "query ! i = 1" "\<forall>j<i. query ! j \<noteq> 1"
  shows "server_process_query query videoFiles draws w = process_video (videoFiles ! i) draws w"
proof -
  have "server_scan 0 query videoFiles draws w = server_scan i query videoFiles draws w"
    using assms by (intro server_scan_skip) auto
  also have "\<dots> = process_video (videoFiles ! i) draws w"
    using assms by (subst server_scan.simps) simp
  finally show ?thesis by (simp add: server_process_query_def)
qed

lemma server_none_selected:
  assumes "\<forall>j<length videoFiles. j < length query \<longrightarrow> query ! j \<noteq> 1"
  shows "server_process_query query videoFiles draws w = (Inr [], w)"
proof -
  have "server_scan 0 query videoFiles draws w
          = server_scan (length videoFiles) query videoFiles draws w"
    using assms by (intro server_scan_skip) auto
  also have "\<dots> = (Inr [], w)"
    by (subst server_scan.simps) simp
  finally show ?thesis by (simp add: server_process_query_def)
qed

lemma server_valid_index:
  assumes "0 \<le> k" "nat k < length videoFiles"
  shows "server_process_query (client_generate_query k (length videoFiles)) videoFiles draws w
           = process_video (videoFiles ! nat k) draws w"
proof (rule server_first_selected)
  show "nat k < length videoFiles" by (rule assms(2))
  show "nat k < length (client_generate_query k (length videoFiles))"
    using assms by (simp add: query_length)
  show "client_generate_query k (length videoFiles) ! nat k = 1"
    using assms by (rule query_at_target)
  show "\<forall>j<nat k. client_generate_query k (length videoFiles) ! j \<noteq> 1"
    using assms by (simp add: query_elsewhere)
qed

subsection \<open>One selected video\<close>

lemma process_video_opened:
  "opened (snd (process_video f draws w)) =
     opened w @ (if files w (''D0/'' @ f) = None then [''D0/'' @ f] else [''D0/'' @ f, ''D1/'' @ f])"
  by (simp add: process_video_def readBitsFile_def writeBitsFile_def Let_def split: option.splits)

lemma process_video_files:
  "p \<noteq> ''r1.txt'' \<Longrightarrow> p \<noteq> ''r2.txt'' \<Longrightarrow> files (snd (process_video f draws w)) p = files w p"
  by (simp add: process_video_def readBitsFile_def writeBitsFile_def Let_def split: option.splits)

lemma process_video_d0_dir: "d0_dir (snd (process_video f draws w)) = d0_dir w"
  by (simp add: process_video_def readBitsFile_def writeBitsFile_def Let_def split: option.splits)

lemma process_video_missing:
  "files w (''D0/'' @ f) = None \<or> files w (''D1/'' @ f) = None \<Longrightarrow>
   fst (process_video f draws w) = Inr []"
  by (auto simp add: process_video_def readBitsFile_def split: option.splits)

lemma process_video_write_failed:
  "files w (''D0/'' @ f) = Some a \<Longrightarrow> files w (''D1/'' @ f) = Some b \<Longrightarrow>
   length (parse_bits a) \<le> length (parse_bits b) \<Longrightarrow>
   ''r1.txt'' \<in> unwritable w \<or> ''r2.txt'' \<in> unwritable w \<Longrightarrow>
   fst (process_video f draws w) = Inr (parse_bits a)"
  by (auto simp add: process_video_def readBitsFile_def writeBitsFile_def Let_def)

lemma process_video_done:
  "files w (''D0/'' @ f) = Some a \<Longrightarrow> files w (''D1/'' @ f) = Some b \<Longrightarrow>
   length (parse_bits a) \<le> length (parse_bits b) \<Longrightarrow>
   ''r1.txt'' \<notin> unwritable w \<Longrightarrow> ''r2.txt'' \<notin> unwritable w \<Longrightarrow>
   process_video f draws w =
     (Inr (compute_result (parse_bits a) (parse_bits b)
             (gen_r1 draws (length (parse_bits a))) (gen_r2 draws (length (parse_bits a)))),
      w\<lparr>opened := opened w @ [''D0/'' @ f, ''D1/'' @ f],
        files := (files w)(''r1.txt'' \<mapsto> map bit_char (gen_r1 draws (length (parse_bits a))),
                           ''r2.txt'' \<mapsto> map bit_char (gen_r2 draws (length (parse_bits a))))\<rparr>)"
  by (simp add: process_video_def readBitsFile_def writeBitsFile_def Let_def)

lemma process_video_no_fault:
  "length (file_bits w (''D0/'' @ f)) \<le> length (file_bits w (''D1/'' @ f)) \<Longrightarrow>
   \<exists>resp. fst (process_video f draws w) = Inr resp"
  by (auto simp add: process_video_def readBitsFile_def writeBitsFile_def file_bits_def Let_def
      split: option.splits)

lemma server_scan_files:
  "p \<noteq> ''r1.txt'' \<Longrightarrow> p \<noteq> ''r2.txt'' \<Longrightarrow>
   files (snd (server_scan i query videoFiles draws w)) p = files w p"
proof (induction i query videoFiles draws w rule: server_scan.induct)
  case (1 i query videoFiles draws w)
  then show ?case
    by (subst server_scan.simps) (simp add: process_video_files)
qed

subsection \<open>The client's decoding\<close>

lemma load_original_value:
  "d0_dir w = Some entries \<Longrightarrow>
   fst (load_original k w) =
     Inr (if length (list_d0_files entries) \<le> k then []
          else file_bits w (list_d0_files entries ! k))"
  by (simp add: load_original_def readBitsFile_def file_bits_def Let_def split: option.splits)

lemma load_original_opened: "fst (load_original k (w\<lparr>opened := l\<rparr>)) = fst (load_original k w)"
  by (simp add: load_original_def readBitsFile_def Let_def split: option.splits)

lemma decode_is_load_original:
  "fst (client_decode_pir_result serverResponse k w) = fst (load_original k w)"
  by (simp add: client_decode_pir_result_def readBitsFile_def load_original_opened
      split: option.splits)

lemma decode_files: "files (snd (client_decode_pir_result serverResponse k w)) = files w"
  by (simp add: client_decode_pir_result_def load_original_def readBitsFile_def Let_def
      split: option.splits)

subsection \<open>The response bits\<close>

text \<open>On bits, the arithmetic of line 222 is an exclusive or of two conjunctions.\<close>

lemma compute_result_xor:
  assumes "length (parse_bits a) \<le> length (parse_bits b)"
  shows "compute_result (parse_bits a) (parse_bits b)
           (gen_r1 draws (length (parse_bits a))) (gen_r2 draws (length (parse_bits a)))
       = map (\<lambda>j. (parse_bits a ! j AND of_bool (draws (2 * j)))
                    XOR (parse_bits b ! j AND of_bool (draws (2 * j + 1))))
           [0..<length (parse_bits a)]"
proof -
  have "(parse_bits a ! j * of_bool (draws (2 * j)) + parse_bits b ! j * of_bool (draws (2 * j + 1))) AND 1
          = (parse_bits a ! j AND of_bool (draws (2 * j)))
              XOR (parse_bits b ! j AND of_bool (draws (2 * j + 1)))"
    if "j < length (parse_bits a)" for j
  proof (rule bit_arith)
    show "parse_bits a ! j = 0 \<or> parse_bits a ! j = 1"
      by (rule parse_bits_bit [OF nth_mem [OF that]])
    have "j < length (parse_bits b)"
      using that assms by simp
    then show "parse_bits b ! j = 0 \<or> parse_bits b ! j = 1"
      by (rule parse_bits_bit [OF nth_mem])
  qed
  then show ?thesis
    by (simp add: compute_result_def gen_r1_def gen_r2_def)
qed

section \<open>The claims\<close>

subsection \<open>Query generation\<close>

text \<open>
  Claim C7. For a valid index (\<open>0 \<le> k < n\<close>) the query has length \<open>n\<close>, a \<open>1\<close> at
  position \<open>k\<close> and \<open>0\<close> everywhere else, so exactly one entry is \<open>1\<close>; for one record
  and index \<open>0\<close> it is \<open>[1]\<close>.
\<close>

theorem query_one_hot:
  assumes "0 \<le> k" and "nat k < n"
  shows "length (client_generate_query k n) = n
       \<and> client_generate_query k n ! nat k = 1
       \<and> (\<forall>j<n. j \<noteq> nat k \<longrightarrow> client_generate_query k n ! j = 0)
       \<and> length (filter (\<lambda>b. b = 1) (client_generate_query k n)) = 1
       \<and> client_generate_query 0 1 = [1]"
  using assms
  by (simp add: query_length query_at_target query_elsewhere query_weight)
     (simp add: client_generate_query_def)

theorem query_one_hot_witness:
  "(0::int) \<le> 1 \<and> nat 1 < (3::nat) \<and> client_generate_query 1 3 = [0, 1, 0]
     \<and> length (filter (\<lambda>b. b = 1) (client_generate_query 1 3)) = 1"
  using query_one_hot [of 1 3] by (simp add: client_generate_query_def numeral_3_eq_3)

text \<open>
  Claim C6, as stated, asks for a failure on an index outside \<open>[0, n)\<close>. The function
  returns a vector for \<open>-1\<close> and for \<open>n\<close>: all zeros.
\<close>

theorem query_out_of_range_counterexample:
  "client_generate_query (- 1) 3 = [0, 0, 0] \<and> client_generate_query 3 3 = [0, 0, 0]"
  by (simp add: client_generate_query_def numeral_3_eq_3)

text \<open>
  Claim C6, amended. For an index outside \<open>[0, n)\<close> the query generator does not fail:
  it returns the all-zero vector of length \<open>n\<close>. The index is turned away before,
  by \<open>main\<close>, which stops without generating a query or touching the file system.
\<close>

theorem query_out_of_range_all_zero:
  assumes "k < 0 \<or> int n \<le> k"
  shows "client_generate_query k n = replicate n 0
       \<and> (setup_server_database w \<noteq> [] \<and> n = length (setup_server_database w)
            \<longrightarrow> pir_main k draws w = (Inr InvalidVideoIndex, w))"
  using assms by (auto simp add: client_generate_query_def pir_main_def Let_def)

theorem query_out_of_range_all_zero_witness:
  "((- 1 :: int) < 0 \<or> int 2 \<le> - 1)
     \<and> client_generate_query (- 1) 2 = [0, 0]
     \<and> setup_server_database demo_db \<noteq> [] \<and> 2 = length (setup_server_database demo_db)
     \<and> pir_main (- 1) one_draws demo_db = (Inr InvalidVideoIndex, demo_db)"
  using query_out_of_range_all_zero [of "- 1" 2 demo_db one_draws]
  by (simp add: setup_server_database_def extension_def ends_binary_txt_def demo_db_def
      numeral_2_eq_2)

subsection \<open>The client's decoding and the server's response\<close>

text \<open>
  Claim C5. For a fixed target index and file system, the client's decoding gives the
  same result, and leaves the same file system, whatever server response it is handed.
\<close>

theorem decode_ignores_server_response:
  "client_decode_pir_result serverResponse targetIndex w
     = client_decode_pir_result serverResponse' targetIndex w"
  by (simp add: client_decode_pir_result_def)

subsection \<open>Which record the server processes\<close>

text \<open>
  Claim C10. When the smallest index \<open>i\<close> whose query entry is \<open>1\<close> is an index of the
  database, the server's whole run is the processing of record \<open>i\<close>: it opens that
  record's \<open>D0\<close> file and then (if that could be read) its \<open>D1\<close> file and nothing else,
  and any query that agrees with this one up to position \<open>i\<close> has the same run, whatever
  bits are set later. For an all-zero query the response is empty and the file system,
  the log of opened files included, is as before.
\<close>

theorem server_serves_first_set_bit_only:
  "(i < length videoFiles \<and> i < length query \<and> query ! i = 1 \<and> (\<forall>j<i. query ! j \<noteq> 1)
      \<longrightarrow> server_process_query query videoFiles draws w = process_video (videoFiles ! i) draws w
        \<and> opened (snd (server_process_query query videoFiles draws w))
            = opened w @ (if files w (''D0/'' @ videoFiles ! i) = None
                          then [''D0/'' @ videoFiles ! i]
                          else [''D0/'' @ videoFiles ! i, ''D1/'' @ videoFiles ! i])
        \<and> (\<forall>query'. take (Suc i) query' = take (Suc i) query
              \<longrightarrow> server_process_query query' videoFiles draws w
                    = server_process_query query videoFiles draws w))
   \<and> ((\<forall>b\<in>set query. b = 0)
      \<longrightarrow> server_process_query query videoFiles draws w = (Inr [], w))"
proof (intro conjI impI)
  assume sel: "i < length videoFiles \<and> i < length query \<and> query ! i = 1 \<and> (\<forall>j<i. query ! j \<noteq> 1)"
  then show first: "server_process_query query videoFiles draws w
                      = process_video (videoFiles ! i) draws w"
    by (simp add: server_first_selected)
  then show "opened (snd (server_process_query query videoFiles draws w))
            = opened w @ (if files w (''D0/'' @ videoFiles ! i) = None
                          then [''D0/'' @ videoFiles ! i]
                          else [''D0/'' @ videoFiles ! i, ''D1/'' @ videoFiles ! i])"
    by (simp only: process_video_opened)
  show "\<forall>query'. take (Suc i) query' = take (Suc i) query
              \<longrightarrow> server_process_query query' videoFiles draws w
                    = server_process_query query videoFiles draws w"
  proof (intro allI impI)
    fix query' :: "int list"
    assume eq: "take (Suc i) query' = take (Suc i) query"
    have len: "i < length query'"
    proof (rule ccontr)
      assume "\<not> i < length query'"
      then have "length (take (Suc i) query') \<le> i" by simp
      moreover have "length (take (Suc i) query) = Suc i" using sel by simp
      ultimately show False using eq by simp
    qed
    have nth: "\<And>j. j \<le> i \<Longrightarrow> query' ! j = query ! j"
    proof -
      fix j assume "j \<le> i"
      then have "query' ! j = take (Suc i) query' ! j" "query ! j = take (Suc i) query ! j"
        by simp_all
      then show "query' ! j = query ! j" using eq by simp
    qed
    have "server_process_query query' videoFiles draws w = process_video (videoFiles ! i) draws w"
      using sel len nth by (intro server_first_selected) auto
    then show "server_process_query query' videoFiles draws w
                    = server_process_query query videoFiles draws w"
      using first by simp
  qed
next
  assume zero: "\<forall>b\<in>set query. b = 0"
  show "server_process_query query videoFiles draws w = (Inr [], w)"
  proof (rule server_none_selected, intro allI impI)
    fix j assume "j < length videoFiles" "j < length query"
    then have "query ! j = 0" using zero by simp
    then show "query ! j \<noteq> 1" by simp
  qed
qed

theorem server_serves_first_set_bit_only_witness:
  "1 < length video_names \<and> 1 < length [0, 1, 1 :: int] \<and> [0, 1, 1 :: int] ! 1 = 1
   \<and> [0, 1, 1 :: int] ! 0 \<noteq> 1
   \<and> server_process_query [0, 1, 1] video_names one_draws demo_db
       = process_video ''b.binary.txt'' one_draws demo_db
   \<and> opened (snd (server_process_query [0, 1, 1] video_names one_draws demo_db))
       = [''D0/b.binary.txt'', ''D1/b.binary.txt'']
   \<and> server_process_query [0, 1, 0] video_names one_draws demo_db
       = server_process_query [0, 1, 1] video_names one_draws demo_db
   \<and> set [0, 0 :: int] = {0}
   \<and> server_process_query [0, 0] video_names one_draws demo_db = (Inr [], demo_db)"
proof -
  have sel: "1 < length video_names \<and> 1 < length [0, 1, 1 :: int] \<and> [0, 1, 1 :: int] ! 1 = 1
      \<and> (\<forall>j<1. [0, 1, 1 :: int] ! j \<noteq> 1)"
    by (simp add: video_names_def)
  have zero: "\<forall>b\<in>set [0, 0 :: int]. b = 0"
    by simp
  have first: "server_process_query [0, 1, 1] video_names one_draws demo_db
                 = process_video (video_names ! 1) one_draws demo_db
      \<and> opened (snd (server_process_query [0, 1, 1] video_names one_draws demo_db))
            = opened demo_db @ (if files demo_db (''D0/'' @ video_names ! 1) = None
                          then [''D0/'' @ video_names ! 1]
                          else [''D0/'' @ video_names ! 1, ''D1/'' @ video_names ! 1])
      \<and> (\<forall>query'. take (Suc 1) query' = take (Suc 1) [0, 1, 1]
              \<longrightarrow> server_process_query query' video_names one_draws demo_db
                    = server_process_query [0, 1, 1] video_names one_draws demo_db)"
    using server_serves_first_set_bit_only [of 1 video_names "[0, 1, 1]" one_draws demo_db] sel
    by blast
  have c1: "server_process_query [0, 1, 1] video_names one_draws demo_db
               = process_video ''b.binary.txt'' one_draws demo_db"
    using first by (simp add: video_names_def)
  have "opened (snd (server_process_query [0, 1, 1] video_names one_draws demo_db))
            = opened demo_db @ (if files demo_db (''D0/'' @ video_names ! 1) = None
                          then [''D0/'' @ video_names ! 1]
                          else [''D0/'' @ video_names ! 1, ''D1/'' @ video_names ! 1])"
    using first by blast
  also have "\<dots> = [''D0/b.binary.txt'', ''D1/b.binary.txt'']"
    by (simp add: demo_db_def video_names_def)
  finally have c2: "opened (snd (server_process_query [0, 1, 1] video_names one_draws demo_db))
            = [''D0/b.binary.txt'', ''D1/b.binary.txt'']" .
  have "take (Suc 1) [0, 1, 0 :: int] = take (Suc 1) [0, 1, 1]"
    by simp
  with first have later: "server_process_query [0, 1, 0] video_names one_draws demo_db
                 = server_process_query [0, 1, 1] video_names one_draws demo_db"
    by blast
  have none: "server_process_query [0, 0] video_names one_draws demo_db = (Inr [], demo_db)"
    using server_serves_first_set_bit_only [of 0 video_names "[0, 0]" one_draws demo_db] zero
    by blast
  have hyps: "1 < length video_names \<and> 1 < length [0, 1, 1 :: int] \<and> [0, 1, 1 :: int] ! 1 = 1
      \<and> [0, 1, 1 :: int] ! 0 \<noteq> 1 \<and> set [0, 0 :: int] = {0}"
    by (simp add: video_names_def)
  show ?thesis
    using hyps c1 c2 later none by blast
qed

text \<open>
  Claim C2, as stated, asks that two valid indices give the same sequence of share
  accesses. On the small database the query for video \<open>0\<close> opens the two files of
  video \<open>a\<close> and the query for video \<open>1\<close> the two files of video \<open>b\<close>.
\<close>

theorem access_sequence_counterexample:
  "opened (snd (server_process_query (client_generate_query 0 2) video_names one_draws demo_db))
     = [''D0/a.binary.txt'', ''D1/a.binary.txt'']
   \<and> opened (snd (server_process_query (client_generate_query 1 2) video_names one_draws demo_db))
     = [''D0/b.binary.txt'', ''D1/b.binary.txt'']
   \<and> opened (snd (server_process_query (client_generate_query 0 2) video_names one_draws demo_db))
     \<noteq> opened (snd (server_process_query (client_generate_query 1 2) video_names one_draws
                       demo_db))"
  by (simp add: protocol_defs demo_defs numeral_2_eq_2)

text \<open>
  Claim C2, amended. For a valid index \<open>k\<close> the server opens the share files of record
  \<open>k\<close> only: its \<open>D0\<close> file and, when that could be read, its \<open>D1\<close> file. It visits no
  other record's shares, so the sequence of accesses names the selected record.
\<close>

theorem server_opens_only_selected:
  assumes "0 \<le> k" and "nat k < length videoFiles"
  shows "opened (snd (server_process_query (client_generate_query k (length videoFiles))
                        videoFiles draws w))
           = opened w @ (if files w (''D0/'' @ videoFiles ! nat k) = None
                         then [''D0/'' @ videoFiles ! nat k]
                         else [''D0/'' @ videoFiles ! nat k, ''D1/'' @ videoFiles ! nat k])"
  using assms by (simp only: server_valid_index process_video_opened)

theorem server_opens_only_selected_witness:
  "(0::int) \<le> 1 \<and> nat 1 < length video_names
   \<and> opened (snd (server_process_query (client_generate_query 1 (length video_names))
                        video_names one_draws demo_db))
       = [''D0/b.binary.txt'', ''D1/b.binary.txt'']"
proof -
  have h1: "(0::int) \<le> 1" by simp
  have h2: "nat 1 < length video_names" by (simp add: video_names_def)
  have "opened (snd (server_process_query (client_generate_query 1 (length video_names))
                        video_names one_draws demo_db))
          = opened demo_db @ (if files demo_db (''D0/'' @ video_names ! nat 1) = None
                         then [''D0/'' @ video_names ! nat 1]
                         else [''D0/'' @ video_names ! nat 1, ''D1/'' @ video_names ! nat 1])"
    by (rule server_opens_only_selected [OF h1 h2])
  also have "\<dots> = [''D0/b.binary.txt'', ''D1/b.binary.txt'']"
    by (simp add: demo_db_def video_names_def)
  finally show ?thesis using h1 h2 by blast
qed

subsection \<open>What the response is\<close>

text \<open>
  Claim C4, as stated, makes the response the inner product of the selection vector with
  a replica's shares, as long as the longest record. On the small database, with every
  random bit \<open>1\<close>, the query \<open>[1, 0]\<close> is answered with \<open>[1, 1]\<close>, of the length of the
  selected record; the inner product is \<open>[1, 0, 0]\<close> over replica A's shares and
  \<open>[0, 1, 0]\<close> over replica B's.
\<close>

theorem evaluator_formula_counterexample:
  "fst (server_process_query [1, 0] video_names one_draws demo_db) = Inr [1, 1]
   \<and> spec_evaluate [1, 0]
        [file_bits demo_db ''D0/a.binary.txt'', file_bits demo_db ''D0/b.binary.txt'']
       = [1, 0, 0]
   \<and> spec_evaluate [1, 0]
        [file_bits demo_db ''D1/a.binary.txt'', file_bits demo_db ''D1/b.binary.txt'']
       = [0, 1, 0]
   \<and> fst (server_process_query [1, 0] video_names one_draws demo_db)
       \<noteq> Inr (spec_evaluate [1, 0]
                [file_bits demo_db ''D0/a.binary.txt'', file_bits demo_db ''D0/b.binary.txt''])
   \<and> fst (server_process_query [1, 0] video_names one_draws demo_db)
       \<noteq> Inr (spec_evaluate [1, 0]
                [file_bits demo_db ''D1/a.binary.txt'', file_bits demo_db ''D1/b.binary.txt''])"
  by (simp add: protocol_defs demo_defs spec_evaluate_def share_bit_def max_record_length_def
      numeral_2_eq_2 numeral_3_eq_3 upt_rec)

text \<open>
  Claim C4, amended. When the first set bit of the query is at a record \<open>i\<close> of the
  database, both share files of record \<open>i\<close> can be read, the \<open>D1\<close> one holding at least
  as many bits as the \<open>D0\<close> one, and \<open>r1.txt\<close> and \<open>r2.txt\<close> can be written, the response
  has the length of record \<open>i\<close>'s \<open>D0\<close> share and its bit \<open>j\<close> is
  \<open>(D0_i[j] AND r1[j]) XOR (D1_i[j] AND r2[j])\<close>, with \<open>r1\<close> and \<open>r2\<close> the random bits
  drawn for this query. No other record contributes.
\<close>

theorem response_is_masked_selected_record:
  assumes "i < length videoFiles" and "i < length query" and "query ! i = 1"
    and "\<forall>j<i. query ! j \<noteq> 1"
    and "files w (''D0/'' @ videoFiles ! i) = Some a"
    and "files w (''D1/'' @ videoFiles ! i) = Some b"
    and "length (parse_bits a) \<le> length (parse_bits b)"
    and "''r1.txt'' \<notin> unwritable w" and "''r2.txt'' \<notin> unwritable w"
  shows "fst (server_process_query query videoFiles draws w)
           = Inr (map (\<lambda>j. (parse_bits a ! j AND of_bool (draws (2 * j)))
                             XOR (parse_bits b ! j AND of_bool (draws (2 * j + 1))))
                    [0..<length (parse_bits a)])"
proof -
  have "server_process_query query videoFiles draws w = process_video (videoFiles ! i) draws w"
    using assms(1-4) by (rule server_first_selected)
  then show ?thesis
    using process_video_done [OF assms(5-9), of draws] compute_result_xor [OF assms(7), of draws]
    by simp
qed

theorem response_is_masked_selected_record_witness:
  "0 < length video_names \<and> 0 < length [1, 0 :: int] \<and> [1, 0 :: int] ! 0 = 1
   \<and> files demo_db ''D0/a.binary.txt'' = Some ''10''
   \<and> files demo_db ''D1/a.binary.txt'' = Some ''01''
   \<and> length (parse_bits ''10'') \<le> length (parse_bits ''01'')
   \<and> ''r1.txt'' \<notin> unwritable demo_db \<and> ''r2.txt'' \<notin> unwritable demo_db
   \<and> fst (server_process_query [1, 0] video_names alt_draws demo_db) = Inr [1, 0]"
proof -
  have h1: "0 < length video_names" and h2: "0 < length [1, 0 :: int]"
    and h3: "[1, 0 :: int] ! 0 = 1" and h4: "\<forall>j<0. [1, 0 :: int] ! j \<noteq> 1"
    by (simp_all add: video_names_def)
  have h5: "files demo_db (''D0/'' @ video_names ! 0) = Some ''10''"
    and h6: "files demo_db (''D1/'' @ video_names ! 0) = Some ''01''"
    by (simp_all add: demo_db_def video_names_def)
  have h7: "length (parse_bits ''10'') \<le> length (parse_bits ''01'')" by simp
  have h8: "''r1.txt'' \<notin> unwritable demo_db" and h9: "''r2.txt'' \<notin> unwritable demo_db"
    by (simp_all add: demo_db_def)
  have "fst (server_process_query [1, 0] video_names alt_draws demo_db)
          = Inr (map (\<lambda>j. (parse_bits ''10'' ! j AND of_bool (alt_draws (2 * j)))
                             XOR (parse_bits ''01'' ! j AND of_bool (alt_draws (2 * j + 1))))
                    [0..<length (parse_bits ''10'')])"
    by (rule response_is_masked_selected_record [OF h1 h2 h3 h4 h5 h6 h7 h8 h9])
  also have "map (\<lambda>j. (parse_bits ''10'' ! j AND of_bool (alt_draws (2 * j)))
                             XOR (parse_bits ''01'' ! j AND of_bool (alt_draws (2 * j + 1))))
                    [0..<length (parse_bits ''10'')] = [1, 0]"
    by code_simp
  finally have c: "fst (server_process_query [1, 0] video_names alt_draws demo_db) = Inr [1, 0]" .
  have h5': "files demo_db ''D0/a.binary.txt'' = Some ''10''"
    and h6': "files demo_db ''D1/a.binary.txt'' = Some ''01''"
    by (simp_all add: demo_db_def)
  show ?thesis using h1 h2 h3 h5' h6' h7 h8 h9 c by blast
qed

subsection \<open>The whole retrieval\<close>

text \<open>
  Claim C1, as stated, makes the retrieval return the XOR of the two shares of record
  \<open>k\<close>. On the small database the retrieval of video \<open>0\<close> returns \<open>[1, 0]\<close>, replica A's
  share, while the two shares XOR to \<open>[1, 1]\<close>.
\<close>

theorem retrieval_counterexample:
  "fst (pir_main 0 one_draws demo_db) = Inr (Decoded [1, 0])
   \<and> xor_bits (file_bits demo_db ''D0/a.binary.txt'') (file_bits demo_db ''D1/a.binary.txt'')
       = [1, 1]
   \<and> fst (pir_main 0 one_draws demo_db)
       \<noteq> Inr (Decoded (xor_bits (file_bits demo_db ''D0/a.binary.txt'')
                                  (file_bits demo_db ''D1/a.binary.txt'')))"
  by (simp add: protocol_defs demo_defs)

text \<open>
  Claim C1, amended. For a valid index \<open>k\<close>, when the client's sorted listing of \<open>D0\<close>
  is the listing made at setup and the \<open>D1\<close> share of record \<open>k\<close> holds at least as
  many bits as the \<open>D0\<close> share, the retrieval (setup, index check, query, server,
  decoding) returns the bits of the \<open>D0\<close> file of record \<open>k\<close>, whatever the \<open>D1\<close> share,
  the random bits and the server's response are.
\<close>

theorem retrieval_returns_d0_bits:
  assumes "0 \<le> k" and "nat k < length (setup_server_database w)"
    and "d0_dir w = Some entries"
    and "list_d0_files entries = map (\<lambda>name. ''D0/'' @ name) (setup_server_database w)"
    and "length (file_bits w (''D0/'' @ setup_server_database w ! nat k))
           \<le> length (file_bits w (''D1/'' @ setup_server_database w ! nat k))"
  shows "fst (pir_main k draws w)
           = Inr (Decoded (file_bits w (''D0/'' @ setup_server_database w ! nat k)))"
proof -
  let ?vf = "setup_server_database w"
  let ?f = "?vf ! nat k"
  have ne: "?vf \<noteq> []" using assms(2) by auto
  have srv: "server_process_query (client_generate_query k (length ?vf)) ?vf draws w
               = process_video ?f draws w"
    using assms(1,2) by (rule server_valid_index)
  obtain resp where r: "fst (process_video ?f draws w) = Inr resp"
    using process_video_no_fault [OF assms(5)] by blast
  define w1 where "w1 = snd (process_video ?f draws w)"
  have pv: "process_video ?f draws w = (Inr resp, w1)"
    using r by (simp add: w1_def prod_eq_iff)
  have d0: "d0_dir w1 = Some entries"
    by (simp add: w1_def process_video_d0_dir assms(3))
  have nth: "\<not> length (list_d0_files entries) \<le> nat k"
      "list_d0_files entries ! nat k = ''D0/'' @ ?f"
    using assms(2,4) by simp_all
  have fb: "file_bits w1 (''D0/'' @ ?f) = file_bits w (''D0/'' @ ?f)"
    by (simp add: file_bits_def w1_def process_video_files)
  have dec: "fst (client_decode_pir_result resp (nat k) w1) = Inr (file_bits w (''D0/'' @ ?f))"
    using load_original_value [OF d0, of "nat k"] nth fb
    by (simp add: decode_is_load_original)
  obtain x w2 where cd: "client_decode_pir_result resp (nat k) w1 = (x, w2)"
    by (cases "client_decode_pir_result resp (nat k) w1")
  with dec have x: "x = Inr (file_bits w (''D0/'' @ ?f))" by simp
  show ?thesis
    using ne assms(1,2) by (simp add: pir_main_def Let_def srv pv cd x)
qed

theorem retrieval_returns_d0_bits_witness:
  "(0::int) \<le> 1 \<and> nat 1 < length (setup_server_database demo_db)
   \<and> list_d0_files [(''a.binary.txt'', True), (''b.binary.txt'', True), (''notes.txt'', True)]
       = map (\<lambda>name. ''D0/'' @ name) (setup_server_database demo_db)
   \<and> length (file_bits demo_db ''D0/b.binary.txt'') \<le> length (file_bits demo_db ''D1/b.binary.txt'')
   \<and> fst (pir_main 1 one_draws demo_db) = Inr (Decoded [1, 1, 1])"
proof -
  have s: "setup_server_database demo_db = [''a.binary.txt'', ''b.binary.txt'']"
    by (simp add: setup_server_database_def extension_def ends_binary_txt_def demo_db_def)
  have h1: "(0::int) \<le> 1" by simp
  have h2: "nat 1 < length (setup_server_database demo_db)" by (simp add: s)
  have h3: "d0_dir demo_db
              = Some [(''a.binary.txt'', True), (''b.binary.txt'', True), (''notes.txt'', True)]"
    by (simp add: demo_db_def)
  have h4: "list_d0_files [(''a.binary.txt'', True), (''b.binary.txt'', True), (''notes.txt'', True)]
       = map (\<lambda>name. ''D0/'' @ name) (setup_server_database demo_db)"
    by (simp add: s list_d0_files_def ends_binary_txt_def)
  have h5: "length (file_bits demo_db (''D0/'' @ setup_server_database demo_db ! nat 1))
           \<le> length (file_bits demo_db (''D1/'' @ setup_server_database demo_db ! nat 1))"
    unfolding s by (simp add: file_bits_def demo_db_def)
  have "fst (pir_main 1 one_draws demo_db)
          = Inr (Decoded (file_bits demo_db (''D0/'' @ setup_server_database demo_db ! nat 1)))"
    by (rule retrieval_returns_d0_bits [OF h1 h2 h3 h4 h5])
  also have "file_bits demo_db (''D0/'' @ setup_server_database demo_db ! nat 1) = [1, 1, 1]"
    unfolding s by (simp add: file_bits_def demo_db_def)
  finally have c: "fst (pir_main 1 one_draws demo_db) = Inr (Decoded [1, 1, 1])" .
  have h5': "length (file_bits demo_db ''D0/b.binary.txt'') \<le> length (file_bits demo_db ''D1/b.binary.txt'')"
    by (simp add: file_bits_def demo_db_def)
  show ?thesis using h1 h2 h4 h5' c by blast
qed

subsection \<open>Setup and the two replicas\<close>

text \<open>
  Claim C3, as stated, has setup establish that the two shares of every record XOR to
  the record. On the small database setup succeeds and lists both videos; the record
  of index \<open>0\<close>, as the client loads it under the name of the original video, is
  \<open>[1, 0]\<close>, and the two shares XOR to \<open>[1, 1]\<close>.
\<close>

theorem share_invariant_counterexample:
  "setup_server_database demo_db = video_names
   \<and> fst (client_decode_pir_result [] 0 demo_db) = Inr [1, 0]
   \<and> xor_bits (file_bits demo_db ''D0/a.binary.txt'') (file_bits demo_db ''D1/a.binary.txt'')
       = [1, 1]
   \<and> fst (client_decode_pir_result [] 0 demo_db)
       \<noteq> Inr (xor_bits (file_bits demo_db ''D0/a.binary.txt'')
                         (file_bits demo_db ''D1/a.binary.txt''))"
  by (simp add: protocol_defs demo_defs)

text \<open>
  Claim C3, amended. Setup creates no shares and checks none: its result is determined
  by the listing of \<open>D0\<close> alone, whatever the files hold and whatever is in \<open>D1\<close>, and
  it writes nothing. What the \<open>D0\<close> and \<open>D1\<close> files hold is then kept: the server
  never changes a file under \<open>D0\<close> or \<open>D1\<close>, and the client's decoding changes no file.
\<close>

theorem setup_reads_listing_only:
  "(d0_dir w' = d0_dir w \<longrightarrow> setup_server_database w' = setup_server_database w)
   \<and> files (snd (server_process_query query videoFiles draws w)) (''D0/'' @ name)
       = files w (''D0/'' @ name)
   \<and> files (snd (server_process_query query videoFiles draws w)) (''D1/'' @ name)
       = files w (''D1/'' @ name)
   \<and> files (snd (client_decode_pir_result serverResponse k w)) = files w"
  by (simp add: setup_server_database_def server_process_query_def server_scan_files decode_files)

theorem setup_reads_listing_only_witness:
  "d0_dir demo_db_no_d1 = d0_dir demo_db
   \<and> files demo_db_no_d1 ''D1/a.binary.txt'' = None
   \<and> files demo_db ''D1/a.binary.txt'' = Some ''01''
   \<and> setup_server_database demo_db_no_d1 = setup_server_database demo_db"
proof -
  have h: "d0_dir demo_db_no_d1 = d0_dir demo_db"
    by (simp add: demo_db_no_d1_def)
  have c: "setup_server_database demo_db_no_d1 = setup_server_database demo_db"
    using setup_reads_listing_only [of demo_db_no_d1 demo_db] h by blast
  have f: "files demo_db_no_d1 ''D1/a.binary.txt'' = None"
      "files demo_db ''D1/a.binary.txt'' = Some ''01''"
    by (simp_all add: demo_db_no_d1_def demo_db_def)
  show ?thesis using h c f by blast
qed

subsection \<open>Failures\<close>

text \<open>
  Claim C8, as stated, has every failure abort the query with an error. On the small
  database, when \<open>r1.txt\<close> cannot be written the server answers with replica A's raw
  share \<open>[1, 0]\<close>; when replica B's share file is missing the server answers with the
  empty vector and the retrieval still completes, with the bits read from \<open>D0\<close>.
\<close>

theorem silent_fallback_counterexample:
  "''r1.txt'' \<in> unwritable demo_db_readonly
   \<and> fst (server_process_query [1, 0] video_names one_draws demo_db_readonly) = Inr [1, 0]
   \<and> file_bits demo_db_readonly ''D0/a.binary.txt'' = [1, 0]
   \<and> files demo_db_no_d1 ''D1/a.binary.txt'' = None
   \<and> fst (server_process_query [1, 0] video_names one_draws demo_db_no_d1) = Inr []
   \<and> fst (pir_main 0 one_draws demo_db_no_d1) = Inr (Decoded [1, 0])"
  by (simp add: protocol_defs demo_defs)

text \<open>
  Claim C8, amended. When the first set bit of the query is at a record \<open>i\<close> of the
  database, the server answers a failure with data: if a share file of record \<open>i\<close> is
  missing, it returns the empty vector; if both share files are read, the \<open>D1\<close> one
  holding at least as many bits as the \<open>D0\<close> one, and \<open>r1.txt\<close> or \<open>r2.txt\<close> cannot be
  written, it returns the \<open>D0\<close> share of record \<open>i\<close> as it is. When the directory
  \<open>D0\<close> can be listed, the client's decoding, whether or not \<open>r1.txt\<close> and \<open>r2.txt\<close>
  exist (each a readable regular file or absent), returns the bits of the file at the
  target position of its sorted \<open>D0\<close> listing: the empty vector when the position is
  past the listing or the file cannot be opened.
\<close>

theorem failures_fall_back_to_data:
  assumes "i < length videoFiles" and "i < length query" and "query ! i = 1"
    and "\<forall>j<i. query ! j \<noteq> 1"
  shows "(files w (''D0/'' @ videoFiles ! i) = None \<or> files w (''D1/'' @ videoFiles ! i) = None
            \<longrightarrow> fst (server_process_query query videoFiles draws w) = Inr [])
       \<and> (files w (''D0/'' @ videoFiles ! i) = Some a \<and> files w (''D1/'' @ videoFiles ! i) = Some b
            \<and> length (parse_bits a) \<le> length (parse_bits b)
            \<and> (''r1.txt'' \<in> unwritable w \<or> ''r2.txt'' \<in> unwritable w)
            \<longrightarrow> fst (server_process_query query videoFiles draws w) = Inr (parse_bits a))
       \<and> (d0_dir w = Some entries
            \<longrightarrow> fst (client_decode_pir_result serverResponse k w)
                  = Inr (if length (list_d0_files entries) \<le> k then []
                         else file_bits w (list_d0_files entries ! k)))"
proof -
  have "server_process_query query videoFiles draws w = process_video (videoFiles ! i) draws w"
    using assms by (rule server_first_selected)
  then show ?thesis
    by (auto simp add: process_video_missing process_video_write_failed
        decode_is_load_original load_original_value)
qed

theorem failures_fall_back_to_data_witness:
  "0 < length video_names \<and> 0 < length [1, 0 :: int] \<and> [1, 0 :: int] ! 0 = 1
   \<and> files demo_db_no_d1 ''D1/a.binary.txt'' = None
   \<and> fst (server_process_query [1, 0] video_names one_draws demo_db_no_d1) = Inr []
   \<and> files demo_db_readonly ''D0/a.binary.txt'' = Some ''10''
   \<and> files demo_db_readonly ''D1/a.binary.txt'' = Some ''01''
   \<and> length (parse_bits ''10'') \<le> length (parse_bits ''01'')
   \<and> ''r1.txt'' \<in> unwritable demo_db_readonly
   \<and> fst (server_process_query [1, 0] video_names one_draws demo_db_readonly) = Inr [1, 0]
   \<and> d0_dir demo_db
       = Some [(''a.binary.txt'', True), (''b.binary.txt'', True), (''notes.txt'', True)]
   \<and> files demo_db ''r1.txt'' = None
   \<and> fst (client_decode_pir_result [] 0 demo_db) = Inr [1, 0]"
proof -
  have h1: "0 < length video_names" and h2: "0 < length [1, 0 :: int]"
    and h3: "[1, 0 :: int] ! 0 = 1" and h4: "\<forall>j<0. [1, 0 :: int] ! j \<noteq> 1"
    by (simp_all add: video_names_def)
  note t = failures_fall_back_to_data [OF h1 h2 h3 h4]
  have m: "files demo_db_no_d1 (''D1/'' @ video_names ! 0) = None"
    by (simp add: demo_db_no_d1_def video_names_def)
  have c1: "fst (server_process_query [1, 0] video_names one_draws demo_db_no_d1) = Inr []"
    using t [where w = demo_db_no_d1 and draws = one_draws] m by blast
  have f: "files demo_db_readonly (''D0/'' @ video_names ! 0) = Some ''10''"
      "files demo_db_readonly (''D1/'' @ video_names ! 0) = Some ''01''"
      "length (parse_bits ''10'') \<le> length (parse_bits ''01'')"
      "''r1.txt'' \<in> unwritable demo_db_readonly"
    by (simp_all add: demo_db_readonly_def demo_db_def video_names_def)
  have "fst (server_process_query [1, 0] video_names one_draws demo_db_readonly)
          = Inr (parse_bits ''10'')"
    using t [where w = demo_db_readonly and a = "''10''" and b = "''01''" and draws = one_draws] f
    by blast
  then have c2: "fst (server_process_query [1, 0] video_names one_draws demo_db_readonly)
                   = Inr [1, 0]"
    by simp
  have d: "d0_dir demo_db
             = Some [(''a.binary.txt'', True), (''b.binary.txt'', True), (''notes.txt'', True)]"
    by (simp add: demo_db_def)
  have "fst (client_decode_pir_result [] 0 demo_db)
          = Inr (if length (list_d0_files
                     [(''a.binary.txt'', True), (''b.binary.txt'', True), (''notes.txt'', True)]) \<le> 0
                 then []
                 else file_bits demo_db (list_d0_files
                     [(''a.binary.txt'', True), (''b.binary.txt'', True), (''notes.txt'', True)] ! 0))"
    using t [where w = demo_db and serverResponse = "[]" and k = 0
               and entries = "[(''a.binary.txt'', True), (''b.binary.txt'', True), (''notes.txt'', True)]"]
      d
    by blast
  also have "\<dots> = Inr [1, 0]"
    by (simp add: list_d0_files_def ends_binary_txt_def file_bits_def demo_db_def)
  finally have c3: "fst (client_decode_pir_result [] 0 demo_db) = Inr [1, 0]" .
  have m': "files demo_db_no_d1 ''D1/a.binary.txt'' = None" "files demo_db ''r1.txt'' = None"
      "files demo_db_readonly ''D0/a.binary.txt'' = Some ''10''"
      "files demo_db_readonly ''D1/a.binary.txt'' = Some ''01''"
    by (simp_all add: demo_db_no_d1_def demo_db_readonly_def demo_db_def)
  show ?thesis using h1 h2 h3 m' f(3,4) d c1 c2 c3 by blast
qed

subsection \<open>What a query leaves on disk\<close>

text \<open>
  Claim C9, as stated, has no query write \<open>r1\<close> or \<open>r2\<close> to storage. On the small
  database, where neither \<open>r1.txt\<close> nor \<open>r2.txt\<close> exists, a query with the alternating
  draws leaves \<open>r1.txt\<close> holding \<open>11\<close> and \<open>r2.txt\<close> holding \<open>00\<close>.
\<close>

theorem randomness_persisted_counterexample:
  "files demo_db ''r1.txt'' = None \<and> files demo_db ''r2.txt'' = None
   \<and> files (snd (server_process_query [1, 0] video_names alt_draws demo_db)) ''r1.txt''
       = Some ''11''
   \<and> files (snd (server_process_query [1, 0] video_names alt_draws demo_db)) ''r2.txt''
       = Some ''00''"
  by code_simp

text \<open>
  Claim C9, amended. When the first set bit of the query is at a record \<open>i\<close> of the
  database, both share files of record \<open>i\<close> can be read, the \<open>D1\<close> one holding at least
  as many bits as the \<open>D0\<close> one, and \<open>r1.txt\<close> and \<open>r2.txt\<close> can be written, the server
  leaves \<open>r1\<close> in \<open>r1.txt\<close> and \<open>r2\<close> in \<open>r2.txt\<close> in the working directory, one
  character per bit. It writes no other file.
\<close>

theorem server_stores_r1_r2:
  assumes "i < length videoFiles" and "i < length query" and "query ! i = 1"
    and "\<forall>j<i. query ! j \<noteq> 1"
    and "files w (''D0/'' @ videoFiles ! i) = Some a"
    and "files w (''D1/'' @ videoFiles ! i) = Some b"
    and "length (parse_bits a) \<le> length (parse_bits b)"
    and "''r1.txt'' \<notin> unwritable w" and "''r2.txt'' \<notin> unwritable w"
  shows "files (snd (server_process_query query videoFiles draws w)) ''r1.txt''
           = Some (map bit_char (gen_r1 draws (length (parse_bits a))))
       \<and> files (snd (server_process_query query videoFiles draws w)) ''r2.txt''
           = Some (map bit_char (gen_r2 draws (length (parse_bits a))))
       \<and> (\<forall>p. p \<noteq> ''r1.txt'' \<and> p \<noteq> ''r2.txt''
              \<longrightarrow> files (snd (server_process_query query videoFiles draws w)) p = files w p)"
proof -
  have "server_process_query query videoFiles draws w = process_video (videoFiles ! i) draws w"
    using assms(1-4) by (rule server_first_selected)
  then show ?thesis
    using process_video_done [OF assms(5-9), of draws]
    by (simp add: process_video_files)
qed

theorem server_stores_r1_r2_witness:
  "0 < length video_names \<and> 0 < length [1, 0 :: int] \<and> [1, 0 :: int] ! 0 = 1
   \<and> files demo_db ''D0/a.binary.txt'' = Some ''10''
   \<and> files demo_db ''D1/a.binary.txt'' = Some ''01''
   \<and> length (parse_bits ''10'') \<le> length (parse_bits ''01'')
   \<and> ''r1.txt'' \<notin> unwritable demo_db \<and> ''r2.txt'' \<notin> unwritable demo_db
   \<and> files (snd (server_process_query [1, 0] video_names alt_draws demo_db)) ''r1.txt''
       = Some ''11''
   \<and> files (snd (server_process_query [1, 0] video_names alt_draws demo_db)) ''r2.txt''
       = Some ''00''
   \<and> files (snd (server_process_query [1, 0] video_names alt_draws demo_db)) ''D0/a.binary.txt''
       = Some ''10''"
proof -
  have h1: "0 < length video_names" and h2: "0 < length [1, 0 :: int]"
    and h3: "[1, 0 :: int] ! 0 = 1" and h4: "\<forall>j<0. [1, 0 :: int] ! j \<noteq> 1"
    by (simp_all add: video_names_def)
  have h5: "files demo_db (''D0/'' @ video_names ! 0) = Some ''10''"
    and h6: "files demo_db (''D1/'' @ video_names ! 0) = Some ''01''"
    by (simp_all add: demo_db_def video_names_def)
  have h7: "length (parse_bits ''10'') \<le> length (parse_bits ''01'')" by simp
  have h8: "''r1.txt'' \<notin> unwritable demo_db" and h9: "''r2.txt'' \<notin> unwritable demo_db"
    by (simp_all add: demo_db_def)
  note t = server_stores_r1_r2 [OF h1 h2 h3 h4 h5 h6 h7 h8 h9, of alt_draws]
  have g1: "map bit_char (gen_r1 alt_draws (length (parse_bits ''10''))) = ''11''"
    and g2: "map bit_char (gen_r2 alt_draws (length (parse_bits ''10''))) = ''00''"
    by code_simp+
  have c1: "files (snd (server_process_query [1, 0] video_names alt_draws demo_db)) ''r1.txt''
              = Some ''11''"
    using t g1 by simp
  have c2: "files (snd (server_process_query [1, 0] video_names alt_draws demo_db)) ''r2.txt''
              = Some ''00''"
    using t g2 by simp
  have "files (snd (server_process_query [1, 0] video_names alt_draws demo_db)) ''D0/a.binary.txt''
          = files demo_db ''D0/a.binary.txt''"
    using t by simp
  also have "\<dots> = Some ''10''" by (simp add: demo_db_def)
  finally have c3: "files (snd (server_process_query [1, 0] video_names alt_draws demo_db))
                      ''D0/a.binary.txt'' = Some ''10''" .
  have h5': "files demo_db ''D0/a.binary.txt'' = Some ''10''"
    and h6': "files demo_db ''D1/a.binary.txt'' = Some ''01''"
    by (simp_all add: demo_db_def)
  show ?thesis using h1 h2 h3 h5' h6' h7 h8 h9 c1 c2 c3 by blast
qed

end
